theory Spec2Isabelle
  imports Main
begin

section \<open>Python values, exceptions and warnings\<close>

text \<open>
  An exception raised by the Python code is a value of \<open>py_error\<close>; a function that can
  raise returns \<open>py_error + 'a\<close>, with \<open>Inl\<close> the exception. \<open>Exception\<close>,
  \<open>ValueError\<close> and \<open>TypeError\<close> carry their message. \<open>LibraryError\<close> stands for any
  exception raised inside a base class or a library call that the functions below only
  pass on.
\<close>

datatype py_error =
    Exception string
  | ValueError string
  | TypeError string
  | LibraryError string

text \<open>\<open>warnings.warn(msg)\<close> appends the message to the list of emitted warnings.\<close>

type_synonym warnings = "string list"

section \<open>pynwb/ecephys.py\<close>

subsection \<open>ElectrodeGroup\<close>

text \<open>
  The \<open>position\<close> argument has docval type \<open>'array_data'\<close> and default \<open>None\<close>. The model
  covers the two built-in Python sequences of that type, lists and tuples, whose truth
  value, \<open>len\<close> and behaviour under the \<open>%\<close> operator are fixed by the language.
\<close>

datatype 'a array_data = PyList "'a list" | PyTuple "'a list"

fun items :: "'a array_data \<Rightarrow> 'a list" where
  "items (PyList xs) = xs"
| "items (PyTuple xs) = xs"

text \<open>\<open>bool(position)\<close>: a list or tuple is true when it is not empty.\<close>

definition truthy :: "'a array_data \<Rightarrow> bool" where
  "truthy p = (items p \<noteq> [])"

definition len :: "'a array_data \<Rightarrow> nat" where
  "len p = length (items p)"

text \<open>
  \<open>str\<close> of a sequence, from the rendering \<open>sh\<close> of its elements:
  \<open>[1.0, 2.0]\<close> for a list, \<open>(1.0, 2.0)\<close> for a tuple, \<open>(1.0,)\<close> for a tuple of one.
\<close>

fun join :: "string \<Rightarrow> string list \<Rightarrow> string" where
  "join sep [] = []"
| "join sep [x] = x"
| "join sep (x # y # ys) = x @ sep @ join sep (y # ys)"

fun str :: "('a \<Rightarrow> string) \<Rightarrow> 'a array_data \<Rightarrow> string" where
  "str sh (PyList xs) = ''['' @ join '', '' (map sh xs) @ '']''"
| "str sh (PyTuple [x]) = ''('' @ sh x @ '',)''"
| "str sh (PyTuple xs) = ''('' @ join '', '' (map sh xs) @ '')''"

text \<open>
  \<open>prefix + '%s' % v\<close> for a format string with the single conversion \<open>%s\<close> at its end.
  When the right operand is a tuple, Python takes its elements as the arguments of the
  format: a tuple of one element formats that element, any other tuple raises
  \<open>TypeError\<close>. Any other operand is the single argument.
\<close>

fun format_s :: "('a \<Rightarrow> string) \<Rightarrow> string \<Rightarrow> 'a array_data \<Rightarrow> py_error + string" where
  "format_s sh prefix (PyList xs) = Inr (prefix @ str sh (PyList xs))"
| "format_s sh prefix (PyTuple []) = Inl (TypeError ''not enough arguments for format string'')"
| "format_s sh prefix (PyTuple [x]) = Inr (prefix @ sh x)"
| "format_s sh prefix (PyTuple (x # y # ys)) =
     Inl (TypeError ''not all arguments converted during string formatting'')"

record ('a, 'd) ElectrodeGroup =
  name :: string
  description :: string
  location :: string
  device :: 'd
  position :: "'a array_data option"

text \<open>
  \<open>ElectrodeGroup.__init__\<close>. \<open>NWBContainer_init\<close> is the base class's constructor
  (pynwb/core.py), called first with the name: \<open>Some e\<close> when it raises \<open>e\<close>.
\<close>

definition ElectrodeGroup_init ::
  "(string \<Rightarrow> py_error option) \<Rightarrow> ('a \<Rightarrow> string) \<Rightarrow>
   string \<Rightarrow> string \<Rightarrow> string \<Rightarrow> 'd \<Rightarrow> 'a array_data option \<Rightarrow>
   py_error + ('a, 'd) ElectrodeGroup" where
  "ElectrodeGroup_init NWBContainer_init sh nm descr loc dev pos =
     (case NWBContainer_init nm of
        Some e \<Rightarrow> Inl e
      | None \<Rightarrow>
          (case pos of
             None \<Rightarrow>
               Inr \<lparr>name = nm, description = descr, location = loc, device = dev, position = pos\<rparr>
           | Some p \<Rightarrow>
               if truthy p \<and> len p \<noteq> 3 then
                 (case format_s sh
                    ''ElectrodeGroup position argument must have three elements: x, y, z, but received: ''
                    p of
                    Inl e \<Rightarrow> Inl e
                  | Inr msg \<Rightarrow> Inl (Exception msg))
               else
                 Inr \<lparr>name = nm, description = descr, location = loc, device = dev,
                      position = pos\<rparr>))"

subsection \<open>ElectricalSeries\<close>

text \<open>
  What the constructors below inspect of a \<open>data\<close> or \<open>timestamps\<close> argument: whether
  it is a TimeSeries, a DataChunkIterator or a plain array, and a plain array's shape
  (its \<open>len\<close> is the first dimension).
\<close>

datatype data_arg =
    ArrayData "nat list"
  | TimeSeriesData
  | DataChunkIteratorData

fun isinstance_TimeSeries :: "data_arg \<Rightarrow> bool" where
  "isinstance_TimeSeries TimeSeriesData = True"
| "isinstance_TimeSeries _ = False"

fun isinstance_DataChunkIterator :: "data_arg \<Rightarrow> bool" where
  "isinstance_DataChunkIterator DataChunkIteratorData = True"
| "isinstance_DataChunkIterator _ = False"

text \<open>\<open>len(x)\<close>; a TimeSeries, a DataChunkIterator and a 0-d array have no length.\<close>

fun len_data :: "data_arg \<Rightarrow> py_error + nat" where
  "len_data (ArrayData (n # ds)) = Inr n"
| "len_data (ArrayData []) = Inl (TypeError ''len() of unsized object'')"
| "len_data TimeSeriesData = Inl (TypeError ''object has no len()'')"
| "len_data DataChunkIteratorData = Inl (TypeError ''object has no len()'')"

text \<open>The \<open>electrodes\<close> argument, a DynamicTableRegion: its \<open>data\<close> are row indices.\<close>

record DynamicTableRegion =
  dtr_data :: "int list"

text \<open>
  What ecephys.py calls and does not define: \<open>hdmf.utils.get_data_shape\<close> (with
  \<open>strict_no_data_load=True\<close>), whose result is \<open>None\<close> or a tuple of dimensions, each
  an integer or \<open>None\<close>; and \<open>TimeSeries.__init__\<close> of pynwb/base.py, which receives the
  name, the data, the unit, the timestamps and the remaining keyword arguments.
\<close>

record ('kw, 'ts) ecephys_env =
  get_data_shape :: "data_arg \<Rightarrow> nat option list option"
  TimeSeries_init :: "string \<Rightarrow> data_arg \<Rightarrow> string \<Rightarrow> data_arg option \<Rightarrow> 'kw \<Rightarrow> py_error + 'ts"

record 'ts ElectricalSeries =
  timeseries :: 'ts
  electrodes :: DynamicTableRegion
  channel_conversion :: "data_arg option"
  filtering :: "string option"

definition transposed_warning :: string where
  "transposed_warning =
     ''The second dimension of data does not match the length of electrodes, but instead the '' @
     ''first does. Data is oriented incorrectly and should be transposed.''"

definition mismatch_warning :: string where
  "mismatch_warning =
     ''The second dimension of data does not match the length of electrodes. Your data may be '' @
     ''transposed.''"

text \<open>The orientation heuristic of \<open>ElectricalSeries.__init__\<close>: the warnings it emits.\<close>

definition orientation_warnings :: "nat option list option \<Rightarrow> nat \<Rightarrow> warnings" where
  "orientation_warnings data_shape n_electrodes =
     (case data_shape of
        None \<Rightarrow> []
      | Some sh \<Rightarrow>
          if length sh = 2 then
            if sh ! 1 \<noteq> Some n_electrodes then
              if sh ! 0 = Some n_electrodes then [transposed_warning] else [mismatch_warning]
            else []
          else [])"

text \<open>
  \<open>ElectricalSeries.__init__\<close>: the warnings emitted, and the exception raised or the
  object built.
\<close>

definition ElectricalSeries_init ::
  "('kw, 'ts) ecephys_env \<Rightarrow> string \<Rightarrow> data_arg \<Rightarrow> DynamicTableRegion \<Rightarrow>
   data_arg option \<Rightarrow> string option \<Rightarrow> data_arg option \<Rightarrow> 'kw \<Rightarrow>
   warnings \<times> (py_error + 'ts ElectricalSeries)" where
  "ElectricalSeries_init env nm dat elecs chan_conv filt tstamps kwargs =
     (let data_shape = get_data_shape env dat;
          ws = orientation_warnings data_shape (length (dtr_data elecs))
      in (ws,
          case TimeSeries_init env nm dat ''volts'' tstamps kwargs of
            Inl e \<Rightarrow> Inl e
          | Inr ts \<Rightarrow>
              Inr \<lparr>timeseries = ts, electrodes = elecs, channel_conversion = chan_conv,
                   filtering = filt\<rparr>))"

subsection \<open>SpikeEventSeries\<close>

text \<open>
  \<open>SpikeEventSeries.__init__\<close>: the length check, then the constructor of
  ElectricalSeries with the timestamps among the keyword arguments and neither
  \<open>channel_conversion\<close> nor \<open>filtering\<close>.
\<close>

definition SpikeEventSeries_init ::
  "('kw, 'ts) ecephys_env \<Rightarrow> string \<Rightarrow> data_arg \<Rightarrow> data_arg \<Rightarrow> DynamicTableRegion \<Rightarrow> 'kw \<Rightarrow>
   warnings \<times> (py_error + 'ts ElectricalSeries)" where
  "SpikeEventSeries_init env nm dat tstamps elecs kwargs =
     (let continue = ElectricalSeries_init env nm dat elecs None None (Some tstamps) kwargs in
      if \<not> (isinstance_TimeSeries dat \<or> isinstance_TimeSeries tstamps) then
        if \<not> (isinstance_DataChunkIterator dat \<or> isinstance_DataChunkIterator tstamps) then
          (case len_data dat of
             Inl e \<Rightarrow> ([], Inl e)
           | Inr n \<Rightarrow>
               (case len_data tstamps of
                  Inl e \<Rightarrow> ([], Inl e)
                | Inr m \<Rightarrow>
                    if n \<noteq> m then
                      ([], Inl (Exception
                         ''Must provide the same number of timestamps and spike events''))
                    else continue))
        else continue
      else continue)"

section \<open>pynwb/__init__.py\<close>

subsection \<open>Type maps as objects in a store\<close>

text \<open>
  A TypeMap is a mutable object: \<open>get_type_map\<close> may return the very object it was
  given, and \<open>merge\<close> and \<open>load_namespaces\<close> change their receiver in place. So type
  maps live in a store, at addresses; \<open>'tm\<close> is what a type map holds. \<open>next_addr\<close> is
  the first address not yet in use, and \<open>deepcopy\<close> puts an equal value there.
\<close>

type_synonym addr = nat

record 'tm store =
  cells :: "addr \<Rightarrow> 'tm"
  next_addr :: addr

text \<open>The module's global \<open>__TYPE_MAP\<close>, the process-wide default.\<close>

definition TYPE_MAP :: addr where
  "TYPE_MAP = 0"

definition put :: "addr \<Rightarrow> 'tm \<Rightarrow> 'tm store \<Rightarrow> 'tm store" where
  "put a v s = s\<lparr>cells := (cells s)(a := v)\<rparr>"

definition deepcopy :: "addr \<Rightarrow> 'tm store \<Rightarrow> addr \<times> 'tm store" where
  "deepcopy a s =
     (next_addr s,
      s\<lparr>cells := (cells s)(next_addr s := cells s a), next_addr := Suc (next_addr s)\<rparr>)"

text \<open>
  The \<open>extensions\<close> argument: \<open>None\<close>, a path to a namespace, a TypeMap, or a list whose
  elements are paths, TypeMaps or anything else.
\<close>

datatype ext_item = PathItem string | TypeMapItem addr | OtherItem

datatype extensions =
    NoExtensions
  | PathExt string
  | TypeMapExt addr
  | ListExt "ext_item list"

datatype BuildManager = BuildManager addr

text \<open>
  What __init__.py calls and does not define, all of hdmf:
  \<open>TypeMap.load_namespaces(path)\<close> and \<open>TypeMap.merge(other)\<close>, each giving the new
  content of its receiver or raising; the class method \<open>HDF5IO.load_namespaces\<close>, which
  loads the namespaces cached in a file into a type map; and \<open>HDF5IO.__init__\<close>.
  When one of the first three raises, the model leaves its receiver as it was: the
  receiver is then the fresh copy, which no one holds any more, or the caller's own
  extension object, never the default.
\<close>

record ('tm, 'f, 'c, 'io) io_env =
  tm_load_namespaces :: "'tm \<Rightarrow> string \<Rightarrow> py_error + 'tm"
  tm_merge :: "'tm \<Rightarrow> 'tm \<Rightarrow> py_error + 'tm"
  HDF5IO_load_namespaces :: "'tm \<Rightarrow> string \<Rightarrow> 'f option \<Rightarrow> string option \<Rightarrow> py_error + 'tm"
  HDF5IO_init ::
    "string \<Rightarrow> BuildManager \<Rightarrow> string \<Rightarrow> 'f option \<Rightarrow> 'c option \<Rightarrow> string option \<Rightarrow>
     py_error + 'io"

subsection \<open>get_type_map and get_manager\<close>

text \<open>The loop of \<open>get_type_map\<close> over a list of extensions, on the type map at \<open>t\<close>.\<close>

fun load_extensions ::
  "('tm, 'f, 'c, 'io) io_env \<Rightarrow> addr \<Rightarrow> ext_item list \<Rightarrow> 'tm store \<Rightarrow>
   py_error option \<times> 'tm store" where
  "load_extensions env t [] s = (None, s)"
| "load_extensions env t (PathItem p # exts) s =
     (case tm_load_namespaces env (cells s t) p of
        Inl e \<Rightarrow> (Some e, s)
      | Inr v \<Rightarrow> load_extensions env t exts (put t v s))"
| "load_extensions env t (TypeMapItem a # exts) s =
     (case tm_merge env (cells s t) (cells s a) of
        Inl e \<Rightarrow> (Some e, s)
      | Inr v \<Rightarrow> load_extensions env t exts (put t v s))"
| "load_extensions env t (OtherItem # exts) s =
     (Some (ValueError ''extensions must be a list of paths to namespace specs or a TypeMaps''),
      s)"

fun get_type_map ::
  "('tm, 'f, 'c, 'io) io_env \<Rightarrow> extensions \<Rightarrow> 'tm store \<Rightarrow> (py_error + addr) \<times> 'tm store" where
  "get_type_map env NoExtensions s =
     (let (type_map, s1) = deepcopy TYPE_MAP s in (Inr type_map, s1))"
| "get_type_map env (TypeMapExt a) s =
     (let type_map = a in
      case tm_merge env (cells s type_map) (cells s a) of
        Inl e \<Rightarrow> (Inl e, s)
      | Inr v \<Rightarrow> (Inr type_map, put type_map v s))"
| "get_type_map env (ListExt exts) s =
     (let (type_map, s1) = deepcopy TYPE_MAP s in
      case load_extensions env type_map exts s1 of
        (Some e, s2) \<Rightarrow> (Inl e, s2)
      | (None, s2) \<Rightarrow> (Inr type_map, s2))"
| "get_type_map env (PathExt p) s =
     (let (type_map, s1) = deepcopy TYPE_MAP s in
      case tm_load_namespaces env (cells s1 type_map) p of
        Inl e \<Rightarrow> (Inl e, s1)
      | Inr v \<Rightarrow> (Inr type_map, put type_map v s1))"

definition get_manager ::
  "('tm, 'f, 'c, 'io) io_env \<Rightarrow> extensions \<Rightarrow> 'tm store \<Rightarrow>
   (py_error + BuildManager) \<times> 'tm store" where
  "get_manager env exts s =
     (case get_type_map env exts s of
        (Inl e, s1) \<Rightarrow> (Inl e, s1)
      | (Inr type_map, s1) \<Rightarrow> (Inr (BuildManager type_map), s1))"

text \<open>
  What "a type map incorporating the extensions" holds, stated on contents alone: the
  extensions are loaded or merged, in order, into a starting content \<open>v\<close>; \<open>c\<close> gives
  the content of the type maps named in the list.
\<close>

fun incorporate ::
  "('tm, 'f, 'c, 'io) io_env \<Rightarrow> (addr \<Rightarrow> 'tm) \<Rightarrow> 'tm \<Rightarrow> ext_item list \<Rightarrow> py_error + 'tm" where
  "incorporate env c v [] = Inr v"
| "incorporate env c v (PathItem p # exts) =
     (case tm_load_namespaces env v p of
        Inl e \<Rightarrow> Inl e
      | Inr v' \<Rightarrow> incorporate env c v' exts)"
| "incorporate env c v (TypeMapItem a # exts) =
     (case tm_merge env v (c a) of
        Inl e \<Rightarrow> Inl e
      | Inr v' \<Rightarrow> incorporate env c v' exts)"
| "incorporate env c v (OtherItem # exts) =
     Inl (ValueError ''extensions must be a list of paths to namespace specs or a TypeMaps'')"

fun ext_items :: "extensions \<Rightarrow> ext_item list" where
  "ext_items NoExtensions = []"
| "ext_items (PathExt p) = [PathItem p]"
| "ext_items (TypeMapExt a) = [TypeMapItem a]"
| "ext_items (ListExt exts) = exts"

text \<open>
  The type map whose content the extensions are added to: the extension itself when it
  is a TypeMap, the process-wide default otherwise.
\<close>

fun ext_start :: "extensions \<Rightarrow> addr" where
  "ext_start (TypeMapExt a) = a"
| "ext_start _ = TYPE_MAP"

definition incorporated ::
  "('tm, 'f, 'c, 'io) io_env \<Rightarrow> extensions \<Rightarrow> 'tm store \<Rightarrow> py_error + 'tm" where
  "incorporated env exts s =
     incorporate env (cells s) (cells s (ext_start exts)) (ext_items exts)"

text \<open>The type maps an argument names; each is an object that exists already.\<close>

fun item_addrs :: "ext_item list \<Rightarrow> addr list" where
  "item_addrs [] = []"
| "item_addrs (TypeMapItem a # exts) = a # item_addrs exts"
| "item_addrs (_ # exts) = item_addrs exts"

definition ext_allocated :: "extensions \<Rightarrow> 'tm store \<Rightarrow> bool" where
  "ext_allocated exts s = list_all (\<lambda>a. a < next_addr s) (item_addrs (ext_items exts))"

subsection \<open>NWBHDF5IO\<close>

definition ignoring_manager :: string where
  "ignoring_manager = ''loading namespaces from file - ignoring 'manager'' @ [CHR 0x27]"

definition ignoring_extensions :: string where
  "ignoring_extensions = ''loading namespaces from file - ignoring 'extensions' argument''"

definition cannot_load_when_writing :: py_error where
  "cannot_load_when_writing = ValueError ''cannot load namespaces from file when writing to it''"

definition manager_and_extensions :: py_error where
  "manager_and_extensions =
     ValueError (CHR 0x27 # ''manager' and 'extensions' cannot be specified together'')"

text \<open>
  \<open>NWBHDF5IO.__init__\<close>: the warnings emitted, the exception raised or the session
  opened by \<open>HDF5IO.__init__\<close>, and the store afterwards. \<open>'w' in mode\<close> is the test
  that the character occurs in the string.
\<close>

definition NWBHDF5IO_init ::
  "('tm, 'f, 'c, 'io) io_env \<Rightarrow> string \<Rightarrow> string \<Rightarrow> bool \<Rightarrow> BuildManager option \<Rightarrow>
   extensions \<Rightarrow> 'f option \<Rightarrow> 'c option \<Rightarrow> string option \<Rightarrow> 'tm store \<Rightarrow>
   warnings \<times> (py_error + 'io) \<times> 'tm store" where
  "NWBHDF5IO_init env path mode load_namespaces manager exts file_obj comm driver s =
     (if load_namespaces then
        let ws = (if manager \<noteq> None then [ignoring_manager] else []) @
                 (if exts \<noteq> NoExtensions then [ignoring_extensions] else [])
        in if CHR ''w'' \<in> set mode \<or> mode = ''x'' then (ws, Inl cannot_load_when_writing, s)
           else
             (case get_type_map env NoExtensions s of
                (Inl e, s1) \<Rightarrow> (ws, Inl e, s1)
              | (Inr tm, s1) \<Rightarrow>
                  (case HDF5IO_load_namespaces env (cells s1 tm) path file_obj driver of
                     Inl e \<Rightarrow> (ws, Inl e, s1)
                   | Inr v \<Rightarrow>
                       (ws,
                        HDF5IO_init env path (BuildManager tm) mode file_obj comm driver,
                        put tm v s1)))
      else
        (case manager of
           Some m \<Rightarrow>
             if exts \<noteq> NoExtensions then ([], Inl manager_and_extensions, s)
             else ([], HDF5IO_init env path m mode file_obj comm driver, s)
         | None \<Rightarrow>
             if exts \<noteq> NoExtensions then
               (case get_manager env exts s of
                  (Inl e, s1) \<Rightarrow> ([], Inl e, s1)
                | (Inr m, s1) \<Rightarrow> ([], HDF5IO_init env path m mode file_obj comm driver, s1))
             else
               (case get_manager env NoExtensions s of
                  (Inl e, s1) \<Rightarrow> ([], Inl e, s1)
                | (Inr m, s1) \<Rightarrow> ([], HDF5IO_init env path m mode file_obj comm driver, s1))))"

section \<open>Shape constraints on constructor arguments\<close>

text \<open>
  The \<open>shape\<close> entry of a docval argument, as ecephys.py writes it: one shape, as in
  \<open>'shape': (None, )\<close>, or a tuple of alternatives, as in
  \<open>'shape': ((None, ), (None, None), (None, None, None))\<close>. A dimension is a fixed size
  or the placeholder \<open>None\<close>.
\<close>

type_synonym shape_alt = "nat option list"

datatype shape_spec = OneShape shape_alt | Shapes "shape_alt list"

fun alternatives :: "shape_spec \<Rightarrow> shape_alt list" where
  "alternatives (OneShape alt) = [alt]"
| "alternatives (Shapes alts) = alts"

text \<open>The shapes declared for \<open>data\<close> of ElectricalSeries (line 59).\<close>

definition ElectricalSeries_data_shape :: shape_spec where
  "ElectricalSeries_data_shape = Shapes [[None], [None, None], [None, None, None]]"

text \<open>The shapes declared for \<open>num\<close> and \<open>times\<close> of Clustering (lines 202 and 207).\<close>

definition Clustering_num_shape :: shape_spec where
  "Clustering_num_shape = OneShape [None]"

definition Clustering_times_shape :: shape_spec where
  "Clustering_times_shape = OneShape [None]"

text \<open>
  Modelled from the spec: the check itself, which hdmf's \<open>docval\<close> decorator runs
  before the constructor's body and which is not among the sources. Spec 4.2: "the
  actual value's shape must match at least one alternative (each dimension either a fixed
  size or unconstrained via a None placeholder) - mismatch fails with
  ShapeConstraintError identifying the expected alternatives and the actual shape."
\<close>

definition dim_ok :: "nat option \<Rightarrow> nat \<Rightarrow> bool" where
  "dim_ok d n = (case d of None \<Rightarrow> True | Some k \<Rightarrow> k = n)"

definition shape_okay :: "shape_alt \<Rightarrow> nat list \<Rightarrow> bool" where
  "shape_okay alt sh = list_all2 dim_ok alt sh"

datatype shape_error = ShapeConstraintError "shape_alt list" "nat list"

definition check_shape :: "shape_spec \<Rightarrow> nat list \<Rightarrow> shape_error + unit" where
  "check_shape spec sh =
     (if list_ex (\<lambda>alt. shape_okay alt sh) (alternatives spec) then Inr ()
      else Inl (ShapeConstraintError (alternatives spec) sh))"

section \<open>Validation\<close>

subsection \<open>The validator\<close>

text \<open>
  Modelled from the spec: the schema catalog, the builder tree and the validator
  (\<open>ValidatorMap.validate\<close> of hdmf), which \<open>validate\<close> of pynwb/__init__.py calls and
  which are not among the sources. Spec 3: a TypeSpec has an optional parent type and
  attribute and child specs, each with a name, whether it is required, a declared type
  and, for datasets, shape alternatives. Spec 4.5: the validator "traverses every
  required attribute/child declared for the builder's resolved type (and ancestors); for
  each missing one emits a MissingError; for each type-mismatched child emits a
  TypeMismatchError; for each shape violation emits a ShapeError. Never stops at the
  first error - returns the complete list for a single pass."
\<close>

datatype validation_error = MissingError string | TypeMismatchError string | ShapeError string

record field_spec =
  field_name :: string
  required :: bool
  field_type :: "string option"
  field_shape :: "shape_spec option"

record type_spec =
  ts_parent :: "string option"
  ts_fields :: "field_spec list"

text \<open>Modelled from the spec: a namespace, the type specs by name.\<close>

type_synonym namespace = "(string \<times> type_spec) list"

text \<open>
  Modelled from the spec: a node of the builder tree, with its type annotation, the shape
  of its data when it is a dataset, and its named attributes and children.
\<close>

datatype builder = Builder string "nat list option" "(string \<times> builder) list"

fun builder_type :: "builder \<Rightarrow> string" where
  "builder_type (Builder t sh cs) = t"

fun builder_shape :: "builder \<Rightarrow> nat list option" where
  "builder_shape (Builder t sh cs) = sh"

text \<open>
  Modelled from the spec: the fields declared for a type and its ancestors, and
  \<open>isSubtype\<close> "by walking the parent chain" (spec 4.1). The catalog has no cyclic
  inheritance, so a chain is no longer than the namespace; the first argument bounds
  the walk.
\<close>

fun resolve :: "nat \<Rightarrow> namespace \<Rightarrow> string \<Rightarrow> field_spec list" where
  "resolve 0 ns t = []"
| "resolve (Suc k) ns t =
     (case map_of ns t of
        None \<Rightarrow> []
      | Some sp \<Rightarrow>
          (case ts_parent sp of None \<Rightarrow> [] | Some p \<Rightarrow> resolve k ns p) @ ts_fields sp)"

fun isSubtype :: "nat \<Rightarrow> namespace \<Rightarrow> string \<Rightarrow> string \<Rightarrow> bool" where
  "isSubtype 0 ns c a = (c = a)"
| "isSubtype (Suc k) ns c a =
     (c = a \<or>
      (case map_of ns c of
         None \<Rightarrow> False
       | Some sp \<Rightarrow> (case ts_parent sp of None \<Rightarrow> False | Some p \<Rightarrow> isSubtype k ns p a)))"

text \<open>Modelled from the spec: the errors one declared field gives on a node.\<close>

definition type_errors :: "namespace \<Rightarrow> field_spec \<Rightarrow> builder \<Rightarrow> validation_error list" where
  "type_errors ns f c =
     (case field_type f of
        None \<Rightarrow> []
      | Some t \<Rightarrow>
          if isSubtype (length ns) ns (builder_type c) t then []
          else [TypeMismatchError (field_name f)])"

definition shape_errors :: "field_spec \<Rightarrow> builder \<Rightarrow> validation_error list" where
  "shape_errors f c =
     (case field_shape f of
        None \<Rightarrow> []
      | Some spec \<Rightarrow>
          (case builder_shape c of
             None \<Rightarrow> []
           | Some sh \<Rightarrow>
               (case check_shape spec sh of
                  Inl e \<Rightarrow> [ShapeError (field_name f)]
                | Inr u \<Rightarrow> [])))"

definition field_errors ::
  "namespace \<Rightarrow> (string \<times> builder) list \<Rightarrow> field_spec \<Rightarrow> validation_error list" where
  "field_errors ns cs f =
     (case map_of cs (field_name f) of
        None \<Rightarrow> if required f then [MissingError (field_name f)] else []
      | Some c \<Rightarrow> type_errors ns f c @ shape_errors f c)"

text \<open>
  Modelled from the spec: the validator. The errors of a node are those of its declared
  fields, in the order of the declaration, followed by those of its children.
\<close>

fun ValidatorMap_validate :: "namespace \<Rightarrow> builder \<Rightarrow> validation_error list" where
  "ValidatorMap_validate ns (Builder t sh cs) =
     concat (map (field_errors ns cs) (resolve (length ns) ns t)) @
     concat (map (\<lambda>c. ValidatorMap_validate ns (snd c)) cs)"

subsection \<open>validate\<close>

text \<open>
  \<open>validate\<close> of pynwb/__init__.py (lines 189-198). Of the io object it uses
  \<open>read_builder()\<close> and \<open>manager.namespace_catalog.get_namespace(name)\<close>, both of
  hdmf; the namespace argument defaults to \<open>CORE_NAMESPACE\<close>.
\<close>

definition CORE_NAMESPACE :: string where
  "CORE_NAMESPACE = ''core''"

record 'io validate_env =
  read_builder :: "'io \<Rightarrow> py_error + builder"
  get_namespace :: "'io \<Rightarrow> string \<Rightarrow> py_error + namespace"

definition validate ::
  "'io validate_env \<Rightarrow> 'io \<Rightarrow> string option \<Rightarrow> py_error + validation_error list" where
  "validate env io namespace_arg =
     (let namespace = (case namespace_arg of None \<Rightarrow> CORE_NAMESPACE | Some n \<Rightarrow> n) in
      case read_builder env io of
        Inl e \<Rightarrow> Inl e
      | Inr builder \<Rightarrow>
          (case get_namespace env io namespace of
             Inl e \<Rightarrow> Inl e
           | Inr ns \<Rightarrow> Inr (ValidatorMap_validate ns builder)))"

subsection \<open>Counting the violations of a tree\<close>

text \<open>
  The three kinds of violation of spec 4.5, each as a property of a declared field on a
  node, and their number over a whole tree.
\<close>

definition is_missing :: "(string \<times> builder) list \<Rightarrow> field_spec \<Rightarrow> bool" where
  "is_missing cs f = (required f \<and> map_of cs (field_name f) = None)"

definition is_mismatched :: "namespace \<Rightarrow> (string \<times> builder) list \<Rightarrow> field_spec \<Rightarrow> bool" where
  "is_mismatched ns cs f =
     (case map_of cs (field_name f) of
        None \<Rightarrow> False
      | Some c \<Rightarrow>
          (case field_type f of
             None \<Rightarrow> False
           | Some t \<Rightarrow> \<not> isSubtype (length ns) ns (builder_type c) t))"

definition violates_shape :: "(string \<times> builder) list \<Rightarrow> field_spec \<Rightarrow> bool" where
  "violates_shape cs f =
     (case map_of cs (field_name f) of
        None \<Rightarrow> False
      | Some c \<Rightarrow>
          (case field_shape f of
             None \<Rightarrow> False
           | Some spec \<Rightarrow>
               (case builder_shape c of
                  None \<Rightarrow> False
                | Some sh \<Rightarrow> \<not> list_ex (\<lambda>alt. shape_okay alt sh) (alternatives spec))))"

fun count_violations ::
  "((string \<times> builder) list \<Rightarrow> field_spec \<Rightarrow> bool) \<Rightarrow> namespace \<Rightarrow> builder \<Rightarrow> nat" where
  "count_violations P ns (Builder t sh cs) =
     length (filter (P cs) (resolve (length ns) ns t)) +
     sum_list (map (\<lambda>c. count_violations P ns (snd c)) cs)"

section \<open>ElectrodeGroup: the position check\<close>

lemma ElectrodeGroup_init_base_error:
  "NWBContainer_init nm = Some e \<Longrightarrow>
   ElectrodeGroup_init NWBContainer_init sh nm descr loc dev pos = Inl e"
  by (simp add: ElectrodeGroup_init_def)

lemma ElectrodeGroup_init_None:
  "NWBContainer_init nm = None \<Longrightarrow>
   ElectrodeGroup_init NWBContainer_init sh nm descr loc dev None =
     Inr \<lparr>name = nm, description = descr, location = loc, device = dev, position = None\<rparr>"
  by (simp add: ElectrodeGroup_init_def)

lemma ElectrodeGroup_init_empty:
  "NWBContainer_init nm = None \<Longrightarrow> items p = [] \<Longrightarrow>
   ElectrodeGroup_init NWBContainer_init sh nm descr loc dev (Some p) =
     Inr \<lparr>name = nm, description = descr, location = loc, device = dev, position = Some p\<rparr>"
  by (simp add: ElectrodeGroup_init_def truthy_def)

lemma ElectrodeGroup_init_three:
  "NWBContainer_init nm = None \<Longrightarrow> length (items p) = 3 \<Longrightarrow>
   ElectrodeGroup_init NWBContainer_init sh nm descr loc dev (Some p) =
     Inr \<lparr>name = nm, description = descr, location = loc, device = dev, position = Some p\<rparr>"
  by (simp add: ElectrodeGroup_init_def len_def)

lemma ElectrodeGroup_init_list_bad:
  "NWBContainer_init nm = None \<Longrightarrow> xs \<noteq> [] \<Longrightarrow> length xs \<noteq> 3 \<Longrightarrow>
   ElectrodeGroup_init NWBContainer_init sh nm descr loc dev (Some (PyList xs)) =
     Inl (Exception
       (''ElectrodeGroup position argument must have three elements: x, y, z, but received: ''
        @ str sh (PyList xs)))"
  by (simp add: ElectrodeGroup_init_def truthy_def len_def)

text \<open>
  C9. A truthy position whose length is not 3 is meant to raise the exception that names
  the three elements x, y, z. For a tuple of two elements (and of four or more) the
  message is never built: \<open>'... %s' % position\<close> takes the tuple as the argument list
  of the format and raises \<open>TypeError\<close>, so the exception that reaches the caller does
  not name x, y, z.
\<close>

theorem ElectrodeGroup_init_tuple_TypeError:
  "ElectrodeGroup_init (\<lambda>_. None) sh nm descr loc dev (Some (PyTuple [x, y])) =
     Inl (TypeError ''not all arguments converted during string formatting'')"
  by (simp add: ElectrodeGroup_init_def truthy_def len_def)

section \<open>ElectricalSeries: the orientation heuristic only warns\<close>

lemma orientation_warnings_2d:
  "b \<noteq> Some n \<Longrightarrow>
   orientation_warnings (Some [a, b]) n =
     [if a = Some n then transposed_warning else mismatch_warning]"
  by (simp add: orientation_warnings_def)

lemma orientation_warnings_at_most_one:
  "length (orientation_warnings sh n) \<le> 1"
  by (simp add: orientation_warnings_def split: option.splits)

text \<open>
  C6. For 2-D data whose second dimension differs from the number of electrodes, the
  constructor of ElectricalSeries emits exactly one warning (the "should be transposed"
  one when the first dimension equals the number of electrodes, the "may be transposed"
  one otherwise) and raises nothing of its own: when the constructor of the base class
  TimeSeries returns, the object is built with the fields as given, and an exception
  can only be one that the base class raised.
\<close>

theorem ElectricalSeries_init_orientation_advisory:
  assumes "get_data_shape env dat = Some [a, b]"
    and "b \<noteq> Some (length (dtr_data elecs))"
  shows "fst (ElectricalSeries_init env nm dat elecs chan_conv filt tstamps kwargs) =
           [if a = Some (length (dtr_data elecs)) then transposed_warning else mismatch_warning]
       \<and> (\<forall>ts. TimeSeries_init env nm dat ''volts'' tstamps kwargs = Inr ts \<longrightarrow>
             snd (ElectricalSeries_init env nm dat elecs chan_conv filt tstamps kwargs) =
               Inr \<lparr>timeseries = ts, electrodes = elecs, channel_conversion = chan_conv,
                    filtering = filt\<rparr>)
       \<and> (\<forall>e. snd (ElectricalSeries_init env nm dat elecs chan_conv filt tstamps kwargs) = Inl e \<longrightarrow>
             TimeSeries_init env nm dat ''volts'' tstamps kwargs = Inl e)"
proof -
  have ws: "fst (ElectricalSeries_init env nm dat elecs chan_conv filt tstamps kwargs) =
      orientation_warnings (Some [a, b]) (length (dtr_data elecs))"
    using assms(1) by (simp add: ElectricalSeries_init_def Let_def)
  have res: "snd (ElectricalSeries_init env nm dat elecs chan_conv filt tstamps kwargs) =
      (case TimeSeries_init env nm dat ''volts'' tstamps kwargs of
         Inl e \<Rightarrow> Inl e
       | Inr ts \<Rightarrow> Inr \<lparr>timeseries = ts, electrodes = elecs, channel_conversion = chan_conv,
                        filtering = filt\<rparr>)"
    by (simp add: ElectricalSeries_init_def Let_def)
  show ?thesis
    unfolding ws res using assms(2)
    by (auto simp: orientation_warnings_2d split: sum.splits)
qed

theorem ElectricalSeries_init_orientation_advisory_witness:
  "ElectricalSeries_init
     \<lparr>get_data_shape = (\<lambda>d. Some [Some 3, Some 5]),
      TimeSeries_init = (\<lambda>n d u t k. Inr (n, u))\<rparr>
     ''es'' (ArrayData [3, 5]) \<lparr>dtr_data = [0, 1, 2]\<rparr> None None None () =
   ([transposed_warning],
    Inr \<lparr>timeseries = (''es'', ''volts''), electrodes = \<lparr>dtr_data = [0, 1, 2]\<rparr>,
         channel_conversion = None, filtering = None\<rparr>)
   \<and> fst (ElectricalSeries_init
     \<lparr>get_data_shape = (\<lambda>d. Some [Some 4, Some 5]),
      TimeSeries_init = (\<lambda>n d u t k. Inr (n, u))\<rparr>
     ''es'' (ArrayData [4, 5]) \<lparr>dtr_data = [0, 1, 2]\<rparr> None None None ()) = [mismatch_warning]"
  using
    ElectricalSeries_init_orientation_advisory
      [where env = "\<lparr>get_data_shape = (\<lambda>d. Some [Some 3, Some 5]),
                     TimeSeries_init = (\<lambda>n d u t k. Inr (n, u))\<rparr>"
         and dat = "ArrayData [3, 5]" and a = "Some 3" and b = "Some 5"
         and elecs = "\<lparr>dtr_data = [0, 1, 2]\<rparr>" and nm = "''es''"
         and chan_conv = None and filt = None and tstamps = None and kwargs = "()"]
    ElectricalSeries_init_orientation_advisory
      [where env = "\<lparr>get_data_shape = (\<lambda>d. Some [Some 4, Some 5]),
                     TimeSeries_init = (\<lambda>n d u t k. Inr (n, u))\<rparr>"
         and dat = "ArrayData [4, 5]" and a = "Some 4" and b = "Some 5"
         and elecs = "\<lparr>dtr_data = [0, 1, 2]\<rparr>" and nm = "''es''"
         and chan_conv = None and filt = None and tstamps = None and kwargs = "()"]
  by (simp add: prod_eq_iff)

section \<open>SpikeEventSeries: the length check\<close>

text \<open>
  C10. When data and timestamps both have a length (neither is a TimeSeries nor a
  DataChunkIterator) and the lengths differ, the constructor of SpikeEventSeries raises
  its exception before anything else happens; when the lengths agree, or when either
  argument is a TimeSeries or a DataChunkIterator, no length is compared and the
  construction is that of ElectricalSeries with the timestamps passed on.
\<close>

theorem SpikeEventSeries_init_length_check:
  "(len_data dat = Inr n \<and> len_data tstamps = Inr m \<and> n \<noteq> m \<longrightarrow>
      SpikeEventSeries_init env nm dat tstamps elecs kwargs =
        ([], Inl (Exception ''Must provide the same number of timestamps and spike events'')))
   \<and> (len_data dat = Inr n \<and> len_data tstamps = Inr n \<longrightarrow>
      SpikeEventSeries_init env nm dat tstamps elecs kwargs =
        ElectricalSeries_init env nm dat elecs None None (Some tstamps) kwargs)
   \<and> (isinstance_TimeSeries dat \<or> isinstance_TimeSeries tstamps \<or>
      isinstance_DataChunkIterator dat \<or> isinstance_DataChunkIterator tstamps \<longrightarrow>
      SpikeEventSeries_init env nm dat tstamps elecs kwargs =
        ElectricalSeries_init env nm dat elecs None None (Some tstamps) kwargs)"
proof (intro conjI impI)
  assume h: "len_data dat = Inr n \<and> len_data tstamps = Inr m \<and> n \<noteq> m"
  then have "\<not> isinstance_TimeSeries dat" "\<not> isinstance_TimeSeries tstamps"
    "\<not> isinstance_DataChunkIterator dat" "\<not> isinstance_DataChunkIterator tstamps"
    by (cases dat; cases tstamps; simp)+
  with h show "SpikeEventSeries_init env nm dat tstamps elecs kwargs =
      ([], Inl (Exception ''Must provide the same number of timestamps and spike events''))"
    by (simp add: SpikeEventSeries_init_def Let_def)
next
  assume h: "len_data dat = Inr n \<and> len_data tstamps = Inr n"
  then show "SpikeEventSeries_init env nm dat tstamps elecs kwargs =
      ElectricalSeries_init env nm dat elecs None None (Some tstamps) kwargs"
    by (simp add: SpikeEventSeries_init_def Let_def)
next
  assume "isinstance_TimeSeries dat \<or> isinstance_TimeSeries tstamps \<or>
      isinstance_DataChunkIterator dat \<or> isinstance_DataChunkIterator tstamps"
  then show "SpikeEventSeries_init env nm dat tstamps elecs kwargs =
      ElectricalSeries_init env nm dat elecs None None (Some tstamps) kwargs"
    by (auto simp: SpikeEventSeries_init_def Let_def)
qed

theorem SpikeEventSeries_init_length_check_witness:
  "SpikeEventSeries_init
     \<lparr>get_data_shape = (\<lambda>d. None), TimeSeries_init = (\<lambda>n d u t k. Inr (n, t))\<rparr>
     ''spikes'' (ArrayData [4, 2]) (ArrayData [3]) \<lparr>dtr_data = [0, 1]\<rparr> () =
     ([], Inl (Exception ''Must provide the same number of timestamps and spike events''))
   \<and> SpikeEventSeries_init
     \<lparr>get_data_shape = (\<lambda>d. None), TimeSeries_init = (\<lambda>n d u t k. Inr (n, t))\<rparr>
     ''spikes'' DataChunkIteratorData (ArrayData [3]) \<lparr>dtr_data = [0, 1]\<rparr> () =
     ([], Inr \<lparr>timeseries = (''spikes'', Some (ArrayData [3])),
              electrodes = \<lparr>dtr_data = [0, 1]\<rparr>,
              channel_conversion = None, filtering = None\<rparr>)"
  using SpikeEventSeries_init_length_check
    [of "ArrayData [4, 2]" 4 "ArrayData [3]" 3
        "\<lparr>get_data_shape = (\<lambda>d. None), TimeSeries_init = (\<lambda>n d u t k. Inr (n, t))\<rparr>"
        "''spikes''" "\<lparr>dtr_data = [0, 1]\<rparr>" "()"]
    SpikeEventSeries_init_length_check
    [of DataChunkIteratorData 0 "ArrayData [3]" 0
        "\<lparr>get_data_shape = (\<lambda>d. None), TimeSeries_init = (\<lambda>n d u t k. Inr (n, t))\<rparr>"
        "''spikes''" "\<lparr>dtr_data = [0, 1]\<rparr>" "()"]
  by (simp add: ElectricalSeries_init_def orientation_warnings_def)

section \<open>The store: assignments, copies and the loop over a list of extensions\<close>

lemma put_simps:
  "cells (put a v s) = (cells s)(a := v)" "next_addr (put a v s) = next_addr s"
  by (simp_all add: put_def)

lemma put_same: "cells (put t v s) t = v"
  by (simp add: put_def)

lemma put_other: "a \<noteq> t \<Longrightarrow> cells (put t v s) a = cells s a"
  by (simp add: put_def)

lemma deepcopy_simps:
  "fst (deepcopy a s) = next_addr s"
  "cells (snd (deepcopy a s)) = (cells s)(next_addr s := cells s a)"
  "next_addr (snd (deepcopy a s)) = Suc (next_addr s)"
  by (simp_all add: deepcopy_def)

lemma incorporate_cong:
  "(\<And>a. a \<in> set (item_addrs exts) \<Longrightarrow> c a = c' a) \<Longrightarrow>
   incorporate env c v exts = incorporate env c' v exts"
proof (induction exts arbitrary: v)
  case Nil
  show ?case by simp
next
  case (Cons x exts)
  show ?case
  proof (cases x)
    case (PathItem p)
    with Cons show ?thesis by (simp split: sum.splits)
  next
    case (TypeMapItem a)
    with Cons show ?thesis by (simp split: sum.splits)
  next
    case OtherItem
    then show ?thesis by simp
  qed
qed

lemma incorporate_put:
  assumes "t \<notin> set (item_addrs exts)"
  shows "incorporate env (cells (put t v s)) w exts = incorporate env (cells s) w exts"
proof (rule incorporate_cong)
  fix a
  assume "a \<in> set (item_addrs exts)"
  with assms have "a \<noteq> t" by auto
  then show "cells (put t v s) a = cells s a" by (rule put_other)
qed

lemma load_extensions_frame:
  "a \<noteq> t \<Longrightarrow> cells (snd (load_extensions env t exts s)) a = cells s a"
proof (induction env t exts s rule: load_extensions.induct)
  case (1 env t s)
  show ?case by simp
next
  case (2 env t p exts s)
  then show ?case by (simp add: put_simps split: sum.splits)
next
  case (3 env t b exts s)
  then show ?case by (simp add: put_simps split: sum.splits)
next
  case (4 env t exts s)
  show ?case by simp
qed

lemma load_extensions_next_addr:
  "next_addr (snd (load_extensions env t exts s)) = next_addr s"
  by (induction env t exts s rule: load_extensions.induct)
     (simp_all add: put_simps split: sum.splits)

lemma load_extensions_incorporate:
  "t \<notin> set (item_addrs exts) \<Longrightarrow>
   (case incorporate env (cells s) (cells s t) exts of
      Inl e \<Rightarrow> fst (load_extensions env t exts s) = Some e
    | Inr v \<Rightarrow> fst (load_extensions env t exts s) = None \<and>
               cells (snd (load_extensions env t exts s)) t = v)"
proof (induction env t exts s rule: load_extensions.induct)
  case (1 env t s)
  show ?case by simp
next
  case (2 env t p exts s)
  show ?case
  proof (cases "tm_load_namespaces env (cells s t) p")
    case (Inl e)
    then show ?thesis by simp
  next
    case (Inr v)
    from 2(2) have nt: "t \<notin> set (item_addrs exts)" by simp
    have "incorporate env (cells (put t v s)) (cells (put t v s) t) exts =
        incorporate env (cells s) v exts"
      using nt by (simp add: put_same incorporate_put)
    with 2(1)[OF Inr nt] Inr show ?thesis by (simp split: sum.splits)
  qed
next
  case (3 env t a exts s)
  show ?case
  proof (cases "tm_merge env (cells s t) (cells s a)")
    case (Inl e)
    then show ?thesis by simp
  next
    case (Inr v)
    from 3(2) have nt: "t \<notin> set (item_addrs exts)" by simp
    have "incorporate env (cells (put t v s)) (cells (put t v s) t) exts =
        incorporate env (cells s) v exts"
      using nt by (simp add: put_same incorporate_put)
    with 3(1)[OF Inr nt] Inr show ?thesis by (simp split: sum.splits)
  qed
next
  case (4 env t exts s)
  show ?case by simp
qed

lemma get_type_map_None:
  "get_type_map env NoExtensions s = (Inr (next_addr s), snd (deepcopy TYPE_MAP s))"
  by (simp add: deepcopy_def)

lemma get_type_map_ListExt:
  "get_type_map env (ListExt es) s =
     (case fst (load_extensions env (next_addr s) es (snd (deepcopy TYPE_MAP s))) of
        Some e \<Rightarrow> Inl e
      | None \<Rightarrow> Inr (next_addr s),
      snd (load_extensions env (next_addr s) es (snd (deepcopy TYPE_MAP s))))"
  by (simp add: deepcopy_def split: prod.splits option.splits)

lemma get_type_map_frame:
  assumes "TYPE_MAP < next_addr s" and "exts \<noteq> TypeMapExt TYPE_MAP"
  shows "cells (snd (get_type_map env exts s)) TYPE_MAP = cells s TYPE_MAP"
proof (cases exts)
  case NoExtensions
  with assms(1) show ?thesis by (simp add: deepcopy_def)
next
  case (PathExt p)
  with assms(1) show ?thesis by (simp add: deepcopy_def put_def split: sum.splits)
next
  case (TypeMapExt a)
  with assms(2) show ?thesis by (simp add: put_def split: sum.splits)
next
  case (ListExt es)
  have "cells (snd (load_extensions env (next_addr s) es (snd (deepcopy TYPE_MAP s)))) TYPE_MAP =
      cells (snd (deepcopy TYPE_MAP s)) TYPE_MAP"
    using assms(1) by (intro load_extensions_frame) simp
  with assms(1) ListExt show ?thesis
    by (simp add: get_type_map_ListExt deepcopy_def del: get_type_map.simps)
qed

lemma get_type_map_incorporated:
  assumes "ext_allocated exts s"
  shows "case incorporated env exts s of
           Inl e \<Rightarrow> fst (get_type_map env exts s) = Inl e
         | Inr v \<Rightarrow> \<exists>t. fst (get_type_map env exts s) = Inr t \<and>
                        cells (snd (get_type_map env exts s)) t = v"
proof (cases exts)
  case NoExtensions
  then show ?thesis by (simp add: incorporated_def deepcopy_def)
next
  case (PathExt p)
  then show ?thesis
    by (simp add: incorporated_def deepcopy_def put_def split: sum.splits)
next
  case (TypeMapExt a)
  then show ?thesis
    by (simp add: incorporated_def put_def split: sum.splits)
next
  case (ListExt es)
  let ?t = "next_addr s"
  let ?s1 = "snd (deepcopy TYPE_MAP s)"
  from assms ListExt have lt: "\<forall>a \<in> set (item_addrs es). a < ?t"
    by (simp add: ext_allocated_def list_all_iff)
  then have nt: "?t \<notin> set (item_addrs es)" by auto
  have "incorporate env (cells ?s1) (cells ?s1 ?t) es =
      incorporate env (cells s) (cells s TYPE_MAP) es"
  proof -
    have "incorporate env (cells ?s1) (cells s TYPE_MAP) es =
        incorporate env (cells s) (cells s TYPE_MAP) es"
    proof (rule incorporate_cong)
      fix a assume "a \<in> set (item_addrs es)"
      with lt have "a \<noteq> ?t" by auto
      then show "cells ?s1 a = cells s a" by (simp add: deepcopy_def)
    qed
    then show ?thesis by (simp add: deepcopy_def)
  qed
  with load_extensions_incorporate [OF nt, of env ?s1] ListExt show ?thesis
    by (simp add: incorporated_def get_type_map_ListExt del: get_type_map.simps
        split: sum.splits)
qed

section \<open>get_type_map: the default type map is not changed\<close>

text \<open>
  C7. \<open>get_type_map\<close> leaves the process-wide default type map as it was, for every
  extensions argument whose type maps exist already and that is not the default object
  itself (the module hands out copies of the default only). What it returns holds the
  extensions incorporated: the content that loading and merging them in order gives,
  starting from the default (from the extension itself when that is a TypeMap); when
  one of them raises, so does \<open>get_type_map\<close>. Without extensions the result is a fresh
  object, distinct from the default and equal to it in content, and no later assignment
  to it changes the default.
\<close>

theorem get_type_map_default_unchanged:
  assumes "TYPE_MAP < next_addr s"
    and "ext_allocated exts s"
    and "exts \<noteq> TypeMapExt TYPE_MAP"
  shows "cells (snd (get_type_map env exts s)) TYPE_MAP = cells s TYPE_MAP
     \<and> (\<forall>e. incorporated env exts s = Inl e \<longrightarrow> fst (get_type_map env exts s) = Inl e)
     \<and> (\<forall>v. incorporated env exts s = Inr v \<longrightarrow>
           (\<exists>t. fst (get_type_map env exts s) = Inr t \<and>
                cells (snd (get_type_map env exts s)) t = v))
     \<and> (exts = NoExtensions \<longrightarrow>
           fst (get_type_map env exts s) = Inr (next_addr s)
         \<and> next_addr s \<noteq> TYPE_MAP
         \<and> cells (snd (get_type_map env exts s)) (next_addr s) = cells s TYPE_MAP
         \<and> (\<forall>v. cells (put (next_addr s) v (snd (get_type_map env exts s))) TYPE_MAP =
                cells s TYPE_MAP))"
proof (intro conjI allI impI)
  show "cells (snd (get_type_map env exts s)) TYPE_MAP = cells s TYPE_MAP"
    using assms(1,3) by (rule get_type_map_frame)
next
  fix e assume "incorporated env exts s = Inl e"
  with get_type_map_incorporated [OF assms(2), of env]
  show "fst (get_type_map env exts s) = Inl e" by simp
next
  fix v assume "incorporated env exts s = Inr v"
  with get_type_map_incorporated [OF assms(2), of env]
  show "\<exists>t. fst (get_type_map env exts s) = Inr t \<and> cells (snd (get_type_map env exts s)) t = v"
    by simp
next
  assume "exts = NoExtensions"
  then show "fst (get_type_map env exts s) = Inr (next_addr s)"
    by (simp add: deepcopy_def)
next
  show "next_addr s \<noteq> TYPE_MAP" using assms(1) by simp
next
  assume "exts = NoExtensions"
  then show "cells (snd (get_type_map env exts s)) (next_addr s) = cells s TYPE_MAP"
    by (simp add: deepcopy_def)
next
  fix v assume "exts = NoExtensions"
  with assms(1) show "cells (put (next_addr s) v (snd (get_type_map env exts s))) TYPE_MAP =
      cells s TYPE_MAP"
    by (simp add: deepcopy_def put_def)
qed

theorem get_type_map_default_unchanged_witness:
  "cells (snd (get_type_map
       \<lparr>tm_load_namespaces = (\<lambda>v p. Inr (v @ [p])),
        tm_merge = (\<lambda>v w. Inr (v @ w)),
        HDF5IO_load_namespaces = (\<lambda>v p (f::unit option) d. Inr (v @ [p])),
        HDF5IO_init = (\<lambda>p m md (f::unit option) (c::unit option) d. Inr (p, m, md))\<rparr>
       (ListExt [PathItem ''ndx.yaml'', TypeMapItem 1])
       \<lparr>cells = (\<lambda>a. if a = 1 then [''lab''] else [''core'']), next_addr = 2\<rparr>)) TYPE_MAP
     = [''core'']
   \<and> fst (get_type_map
       \<lparr>tm_load_namespaces = (\<lambda>v p. Inr (v @ [p])),
        tm_merge = (\<lambda>v w. Inr (v @ w)),
        HDF5IO_load_namespaces = (\<lambda>v p (f::unit option) d. Inr (v @ [p])),
        HDF5IO_init = (\<lambda>p m md (f::unit option) (c::unit option) d. Inr (p, m, md))\<rparr>
       (ListExt [PathItem ''ndx.yaml'', TypeMapItem 1])
       \<lparr>cells = (\<lambda>a. if a = 1 then [''lab''] else [''core'']), next_addr = 2\<rparr>) = Inr 2
   \<and> cells (snd (get_type_map
       \<lparr>tm_load_namespaces = (\<lambda>v p. Inr (v @ [p])),
        tm_merge = (\<lambda>v w. Inr (v @ w)),
        HDF5IO_load_namespaces = (\<lambda>v p (f::unit option) d. Inr (v @ [p])),
        HDF5IO_init = (\<lambda>p m md (f::unit option) (c::unit option) d. Inr (p, m, md))\<rparr>
       (ListExt [PathItem ''ndx.yaml'', TypeMapItem 1])
       \<lparr>cells = (\<lambda>a. if a = 1 then [''lab''] else [''core'']), next_addr = 2\<rparr>)) 2 = [''core'', ''ndx.yaml'', ''lab'']"
  using get_type_map_default_unchanged
    [where s = "\<lparr>cells = (\<lambda>a. if a = 1 then [''lab''] else [''core'']), next_addr = 2\<rparr>"
       and exts = "ListExt [PathItem ''ndx.yaml'', TypeMapItem 1]"
       and env = "\<lparr>tm_load_namespaces = (\<lambda>v p. Inr (v @ [p])),
        tm_merge = (\<lambda>v w. Inr (v @ w)),
        HDF5IO_load_namespaces = (\<lambda>v p (f::unit option) d. Inr (v @ [p])),
        HDF5IO_init = (\<lambda>p m md (f::unit option) (c::unit option) d. Inr (p, m, md))\<rparr>"]
  by (simp add: TYPE_MAP_def ext_allocated_def incorporated_def deepcopy_def put_def)

section \<open>NWBHDF5IO: the constructor\<close>

text \<open>
  C4. With \<open>load_namespaces=True\<close>, the modes \<open>'w'\<close>, \<open>'w-'\<close> and \<open>'x'\<close> are
  rejected with the ValueError "cannot load namespaces from file when writing to it",
  before any type map is copied or any file is opened. For \<open>'r'\<close>, \<open>'r+'\<close> and \<open>'a'\<close>
  the request goes ahead: the outcome is that of loading the cached namespaces into a
  copy of the default type map and then opening the session with a manager on that copy,
  so the session opens whenever both of these hdmf calls return.
\<close>

theorem NWBHDF5IO_init_load_namespaces_mode:
  "(mode \<in> {''w'', ''w-'', ''x''} \<longrightarrow>
      fst (snd (NWBHDF5IO_init env path mode True manager exts file_obj comm driver s)) =
        Inl cannot_load_when_writing
    \<and> snd (snd (NWBHDF5IO_init env path mode True manager exts file_obj comm driver s)) = s)
   \<and> (mode \<in> {''r'', ''r+'', ''a''} \<longrightarrow>
      fst (snd (NWBHDF5IO_init env path mode True manager exts file_obj comm driver s)) =
        (case HDF5IO_load_namespaces env (cells s TYPE_MAP) path file_obj driver of
           Inl e \<Rightarrow> Inl e
         | Inr v \<Rightarrow> HDF5IO_init env path (BuildManager (next_addr s)) mode file_obj comm driver)
    \<and> (\<forall>v io. HDF5IO_load_namespaces env (cells s TYPE_MAP) path file_obj driver = Inr v \<and>
          HDF5IO_init env path (BuildManager (next_addr s)) mode file_obj comm driver = Inr io \<longrightarrow>
          fst (snd (NWBHDF5IO_init env path mode True manager exts file_obj comm driver s)) =
            Inr io))"
proof (intro conjI impI)
  assume "mode \<in> {''w'', ''w-'', ''x''}"
  then have w: "CHR ''w'' \<in> set mode \<or> mode = ''x''" by auto
  then show "fst (snd (NWBHDF5IO_init env path mode True manager exts file_obj comm driver s)) =
      Inl cannot_load_when_writing"
    by (simp add: NWBHDF5IO_init_def Let_def)
  from w show "snd (snd (NWBHDF5IO_init env path mode True manager exts file_obj comm driver s)) = s"
    by (simp add: NWBHDF5IO_init_def Let_def)
next
  assume "mode \<in> {''r'', ''r+'', ''a''}"
  then have r: "\<not> (CHR ''w'' \<in> set mode \<or> mode = ''x'')" by auto
  then show eq: "fst (snd (NWBHDF5IO_init env path mode True manager exts file_obj comm driver s)) =
      (case HDF5IO_load_namespaces env (cells s TYPE_MAP) path file_obj driver of
         Inl e \<Rightarrow> Inl e
       | Inr v \<Rightarrow> HDF5IO_init env path (BuildManager (next_addr s)) mode file_obj comm driver)"
    by (simp add: NWBHDF5IO_init_def Let_def deepcopy_def split: sum.splits)
  show "\<forall>v io. HDF5IO_load_namespaces env (cells s TYPE_MAP) path file_obj driver = Inr v \<and>
          HDF5IO_init env path (BuildManager (next_addr s)) mode file_obj comm driver = Inr io \<longrightarrow>
          fst (snd (NWBHDF5IO_init env path mode True manager exts file_obj comm driver s)) =
            Inr io"
    unfolding eq by simp
qed

theorem NWBHDF5IO_init_load_namespaces_mode_witness:
  "fst (snd (NWBHDF5IO_init
       \<lparr>tm_load_namespaces = (\<lambda>v p. Inr (v @ [p])),
        tm_merge = (\<lambda>v w. Inr (v @ w)),
        HDF5IO_load_namespaces = (\<lambda>v p (f::unit option) d. Inr (v @ [p])),
        HDF5IO_init = (\<lambda>p m md (f::unit option) (c::unit option) d. Inr (p, m, md))\<rparr>
       ''f.nwb'' ''w-'' True None NoExtensions None None None
       \<lparr>cells = (\<lambda>a. [''core'']), next_addr = 1\<rparr>)) = Inl cannot_load_when_writing
   \<and> fst (snd (NWBHDF5IO_init
       \<lparr>tm_load_namespaces = (\<lambda>v p. Inr (v @ [p])),
        tm_merge = (\<lambda>v w. Inr (v @ w)),
        HDF5IO_load_namespaces = (\<lambda>v p (f::unit option) d. Inr (v @ [p])),
        HDF5IO_init = (\<lambda>p m md (f::unit option) (c::unit option) d. Inr (p, m, md))\<rparr>
       ''f.nwb'' ''r+'' True None NoExtensions None None None
       \<lparr>cells = (\<lambda>a. [''core'']), next_addr = 1\<rparr>)) = Inr (''f.nwb'', BuildManager 1, ''r+'')"
  using
    NWBHDF5IO_init_load_namespaces_mode
      [where mode = "''w-''" and path = "''f.nwb''" and manager = None
         and exts = NoExtensions and file_obj = None and comm = None and driver = None
         and s = "\<lparr>cells = (\<lambda>a. [''core'']), next_addr = 1\<rparr>"
         and env = "\<lparr>tm_load_namespaces = (\<lambda>v p. Inr (v @ [p])),
        tm_merge = (\<lambda>v w. Inr (v @ w)),
        HDF5IO_load_namespaces = (\<lambda>v p (f::unit option) d. Inr (v @ [p])),
        HDF5IO_init = (\<lambda>p m md (f::unit option) (c::unit option) d. Inr (p, m, md))\<rparr>"]
    NWBHDF5IO_init_load_namespaces_mode
      [where mode = "''r+''" and path = "''f.nwb''" and manager = None
         and exts = NoExtensions and file_obj = None and comm = None and driver = None
         and s = "\<lparr>cells = (\<lambda>a. [''core'']), next_addr = 1\<rparr>"
         and env = "\<lparr>tm_load_namespaces = (\<lambda>v p. Inr (v @ [p])),
        tm_merge = (\<lambda>v w. Inr (v @ w)),
        HDF5IO_load_namespaces = (\<lambda>v p (f::unit option) d. Inr (v @ [p])),
        HDF5IO_init = (\<lambda>p m md (f::unit option) (c::unit option) d. Inr (p, m, md))\<rparr>"]
  by simp

text \<open>
  C8. With \<open>load_namespaces=False\<close>: a manager together with extensions is rejected with
  the ValueError "'manager' and 'extensions' cannot be specified together" and nothing is
  opened; a manager alone is the session's manager; extensions alone give a manager on the
  type map that \<open>get_type_map\<close> returns for them (its exception, when it raises); and
  with neither the session's manager is on a fresh copy of the default type map.
\<close>

theorem NWBHDF5IO_init_manager_extensions:
  "(exts \<noteq> NoExtensions \<longrightarrow>
      NWBHDF5IO_init env path mode False (Some m) exts file_obj comm driver s =
        ([], Inl manager_and_extensions, s))
   \<and> NWBHDF5IO_init env path mode False (Some m) NoExtensions file_obj comm driver s =
        ([], HDF5IO_init env path m mode file_obj comm driver, s)
   \<and> (exts \<noteq> NoExtensions \<longrightarrow>
        (\<forall>t s1. get_type_map env exts s = (Inr t, s1) \<longrightarrow>
           NWBHDF5IO_init env path mode False None exts file_obj comm driver s =
             ([], HDF5IO_init env path (BuildManager t) mode file_obj comm driver, s1))
      \<and> (\<forall>e s1. get_type_map env exts s = (Inl e, s1) \<longrightarrow>
           NWBHDF5IO_init env path mode False None exts file_obj comm driver s =
             ([], Inl e, s1)))
   \<and> NWBHDF5IO_init env path mode False None NoExtensions file_obj comm driver s =
        ([], HDF5IO_init env path (BuildManager (next_addr s)) mode file_obj comm driver,
         snd (deepcopy TYPE_MAP s))
   \<and> cells (snd (deepcopy TYPE_MAP s)) (next_addr s) = cells s TYPE_MAP"
  by (simp add: NWBHDF5IO_init_def get_manager_def deepcopy_def)

theorem NWBHDF5IO_init_manager_extensions_witness:
  "NWBHDF5IO_init
       \<lparr>tm_load_namespaces = (\<lambda>v p. Inr (v @ [p])),
        tm_merge = (\<lambda>v w. Inr (v @ w)),
        HDF5IO_load_namespaces = (\<lambda>v p (f::unit option) d. Inr (v @ [p])),
        HDF5IO_init = (\<lambda>p m md (f::unit option) (c::unit option) d. Inr (p, m, md))\<rparr>
       ''f.nwb'' ''r'' False (Some (BuildManager 0)) (PathExt ''ndx.yaml'') None None None
       \<lparr>cells = (\<lambda>a. [''core'']), next_addr = 1\<rparr> = ([], Inl manager_and_extensions, \<lparr>cells = (\<lambda>a. [''core'']), next_addr = 1\<rparr>)
   \<and> fst (snd (NWBHDF5IO_init
       \<lparr>tm_load_namespaces = (\<lambda>v p. Inr (v @ [p])),
        tm_merge = (\<lambda>v w. Inr (v @ w)),
        HDF5IO_load_namespaces = (\<lambda>v p (f::unit option) d. Inr (v @ [p])),
        HDF5IO_init = (\<lambda>p m md (f::unit option) (c::unit option) d. Inr (p, m, md))\<rparr>
       ''f.nwb'' ''r'' False None (PathExt ''ndx.yaml'') None None None
       \<lparr>cells = (\<lambda>a. [''core'']), next_addr = 1\<rparr>)) = Inr (''f.nwb'', BuildManager 1, ''r'')"
  using
    NWBHDF5IO_init_manager_extensions
      [where mode = "''r''" and path = "''f.nwb''" and m = "BuildManager 0"
         and exts = "PathExt ''ndx.yaml''" and file_obj = None and comm = None and driver = None
         and s = "\<lparr>cells = (\<lambda>a. [''core'']), next_addr = 1\<rparr>"
         and env = "\<lparr>tm_load_namespaces = (\<lambda>v p. Inr (v @ [p])),
        tm_merge = (\<lambda>v w. Inr (v @ w)),
        HDF5IO_load_namespaces = (\<lambda>v p (f::unit option) d. Inr (v @ [p])),
        HDF5IO_init = (\<lambda>p m md (f::unit option) (c::unit option) d. Inr (p, m, md))\<rparr>"]
  by (simp add: deepcopy_def put_def)

section \<open>Shape constraints: what is accepted and what is rejected\<close>

lemma shape_okay_iff:
  "shape_okay alt sh \<longleftrightarrow>
     length alt = length sh \<and> (\<forall>i < length sh. alt ! i = None \<or> alt ! i = Some (sh ! i))"
proof -
  have "dim_ok d n \<longleftrightarrow> d = None \<or> d = Some n" for d n
    by (cases d) (auto simp: dim_ok_def)
  then show ?thesis
    by (auto simp: shape_okay_def list_all2_conv_all_nth)
qed

lemma shape_okay_unconstrained:
  "shape_okay (replicate k None) sh \<longleftrightarrow> length sh = k"
  by (auto simp: shape_okay_def dim_ok_def list_all2_conv_all_nth)

lemma shape_okay_1: "shape_okay [None] sh \<longleftrightarrow> length sh = 1"
  using shape_okay_unconstrained [of 1 sh] by simp

lemma shape_okay_2: "shape_okay [None, None] sh \<longleftrightarrow> length sh = 2"
  using shape_okay_unconstrained [of 2 sh] by (simp add: numeral_2_eq_2)

lemma shape_okay_3: "shape_okay [None, None, None] sh \<longleftrightarrow> length sh = 3"
  using shape_okay_unconstrained [of 3 sh] by (simp add: numeral_3_eq_3)

lemma check_shape_accepts_iff:
  "check_shape spec sh = Inr () \<longleftrightarrow> (\<exists>alt \<in> set (alternatives spec). shape_okay alt sh)"
  by (simp add: check_shape_def list_ex_iff)

text \<open>
  C5. A value whose shape matches none of the alternatives a field declares is rejected
  with the error that carries the alternatives and the actual shape. For the \<open>data\<close> of
  ElectricalSeries this means: accepted when 1-, 2- or 3-dimensional, rejected otherwise;
  for \<open>num\<close> and \<open>times\<close> of Clustering: accepted when 1-dimensional, rejected
  otherwise.
\<close>

theorem check_shape_rejects_mismatch:
  "((\<forall>alt \<in> set (alternatives spec). \<not> shape_okay alt sh) \<longrightarrow>
      check_shape spec sh = Inl (ShapeConstraintError (alternatives spec) sh))
   \<and> check_shape ElectricalSeries_data_shape sh =
       (if length sh = 1 \<or> length sh = 2 \<or> length sh = 3 then Inr ()
        else Inl (ShapeConstraintError [[None], [None, None], [None, None, None]] sh))
   \<and> check_shape Clustering_num_shape sh =
       (if length sh = 1 then Inr () else Inl (ShapeConstraintError [[None]] sh))
   \<and> check_shape Clustering_times_shape sh =
       (if length sh = 1 then Inr () else Inl (ShapeConstraintError [[None]] sh))"
proof (intro conjI impI)
  assume "\<forall>alt \<in> set (alternatives spec). \<not> shape_okay alt sh"
  then show "check_shape spec sh = Inl (ShapeConstraintError (alternatives spec) sh)"
    by (simp add: check_shape_def list_ex_iff)
next
  show "check_shape ElectricalSeries_data_shape sh =
      (if length sh = 1 \<or> length sh = 2 \<or> length sh = 3 then Inr ()
       else Inl (ShapeConstraintError [[None], [None, None], [None, None, None]] sh))"
    by (simp add: check_shape_def ElectricalSeries_data_shape_def
        shape_okay_1 shape_okay_2 shape_okay_3)
next
  show "check_shape Clustering_num_shape sh =
      (if length sh = 1 then Inr () else Inl (ShapeConstraintError [[None]] sh))"
    by (simp add: check_shape_def Clustering_num_shape_def shape_okay_1)
next
  show "check_shape Clustering_times_shape sh =
      (if length sh = 1 then Inr () else Inl (ShapeConstraintError [[None]] sh))"
    by (simp add: check_shape_def Clustering_times_shape_def shape_okay_1)
qed

theorem check_shape_rejects_mismatch_witness:
  "check_shape (Shapes [[None, Some 3], [Some 2]]) [5, 4] =
     Inl (ShapeConstraintError [[None, Some 3], [Some 2]] [5, 4])
   \<and> check_shape ElectricalSeries_data_shape [10, 4, 2, 2] =
     Inl (ShapeConstraintError [[None], [None, None], [None, None, None]] [10, 4, 2, 2])
   \<and> check_shape ElectricalSeries_data_shape [10, 4] = Inr ()
   \<and> check_shape Clustering_num_shape [7, 2] = Inl (ShapeConstraintError [[None]] [7, 2])
   \<and> check_shape Clustering_times_shape [7] = Inr ()"
  using check_shape_rejects_mismatch [of "Shapes [[None, Some 3], [Some 2]]" "[5, 4]"]
    check_shape_rejects_mismatch [of "Shapes []" "[10, 4, 2, 2]"]
    check_shape_rejects_mismatch [of "Shapes []" "[10, 4]"]
    check_shape_rejects_mismatch [of "Shapes []" "[7, 2]"]
    check_shape_rejects_mismatch [of "Shapes []" "[7]"]
  by (simp add: shape_okay_def dim_ok_def)

section \<open>Validation: every violation is reported once\<close>

lemma length_type_errors:
  "length (type_errors ns f c) =
     (case field_type f of None \<Rightarrow> 0
      | Some t \<Rightarrow> if isSubtype (length ns) ns (builder_type c) t then 0 else 1)"
  by (simp add: type_errors_def split: option.splits)

lemma length_field_errors:
  "length (field_errors ns cs f) =
     (if is_missing cs f then 1 else 0) + (if is_mismatched ns cs f then 1 else 0) +
     (if violates_shape cs f then 1 else 0)"
  by (simp add: field_errors_def is_missing_def is_mismatched_def violates_shape_def
      type_errors_def shape_errors_def check_shape_def split: option.splits)

lemma length_concat_field_errors:
  "length (concat (map (field_errors ns cs) fs)) =
     length (filter (is_missing cs) fs) + length (filter (is_mismatched ns cs) fs) +
     length (filter (violates_shape cs) fs)"
  by (induction fs) (simp_all add: length_field_errors)

lemma length_ValidatorMap_validate:
  "length (ValidatorMap_validate ns b) =
     count_violations is_missing ns b + count_violations (is_mismatched ns) ns b +
     count_violations violates_shape ns b"
proof (induction ns b rule: ValidatorMap_validate.induct)
  case (1 ns t sh cs)
  have "length (concat (map (\<lambda>c. ValidatorMap_validate ns (snd c)) cs)) =
      sum_list (map (\<lambda>c. count_violations is_missing ns (snd c)) cs) +
      sum_list (map (\<lambda>c. count_violations (is_mismatched ns) ns (snd c)) cs) +
      sum_list (map (\<lambda>c. count_violations violates_shape ns (snd c)) cs)"
    using 1
  proof (induction cs)
    case Nil
    show ?case by simp
  next
    case (Cons c cs)
    then show ?case by simp
  qed
  then show ?case by (simp add: length_concat_field_errors)
qed

text \<open>
  C3. \<open>validate\<close> returns the validator's list for the builder tree read from the io
  object, as it is. That list does not end at the first error: its length is the number of
  missing required fields plus the number of type mismatches plus the number of shape
  violations in the whole tree. So a tree with two missing required fields, one shape
  violation and no type mismatch gives exactly three errors.
\<close>

theorem validate_collects_all_errors:
  assumes "read_builder env io = Inr b"
    and "get_namespace env io (case namespace_arg of None \<Rightarrow> CORE_NAMESPACE | Some n \<Rightarrow> n) = Inr ns"
  shows "validate env io namespace_arg = Inr (ValidatorMap_validate ns b)
     \<and> length (ValidatorMap_validate ns b) =
         count_violations is_missing ns b + count_violations (is_mismatched ns) ns b +
         count_violations violates_shape ns b
     \<and> (count_violations is_missing ns b = 2 \<and> count_violations (is_mismatched ns) ns b = 0 \<and>
        count_violations violates_shape ns b = 1 \<longrightarrow>
          length (ValidatorMap_validate ns b) = 3)"
  using assms by (simp add: validate_def length_ValidatorMap_validate)

theorem validate_collects_all_errors_witness:
  "validate
     \<lparr>read_builder = (\<lambda>io. Inr io),
      get_namespace = (\<lambda>io n. if n = ''core'' then Inr
        [(''TimeSeries'', \<lparr>ts_parent = None, ts_fields =
          [\<lparr>field_name = ''data'', required = True, field_type = None,
            field_shape = Some (OneShape [None])\<rparr>,
           \<lparr>field_name = ''rate'', required = True, field_type = None, field_shape = None\<rparr>,
           \<lparr>field_name = ''starting_time'', required = True, field_type = None,
            field_shape = None\<rparr>]\<rparr>)]
        else Inl (LibraryError ''not a namespace''))\<rparr>
     (Builder ''TimeSeries'' None [(''data'', Builder ''Dataset'' (Some [2, 3]) [])]) None =
   Inr [ShapeError ''data'', MissingError ''rate'', MissingError ''starting_time'']
   \<and> count_violations is_missing
       [(''TimeSeries'', \<lparr>ts_parent = None, ts_fields =
          [\<lparr>field_name = ''data'', required = True, field_type = None,
            field_shape = Some (OneShape [None])\<rparr>,
           \<lparr>field_name = ''rate'', required = True, field_type = None, field_shape = None\<rparr>,
           \<lparr>field_name = ''starting_time'', required = True, field_type = None,
            field_shape = None\<rparr>]\<rparr>)]
       (Builder ''TimeSeries'' None [(''data'', Builder ''Dataset'' (Some [2, 3]) [])]) = 2
   \<and> count_violations violates_shape
       [(''TimeSeries'', \<lparr>ts_parent = None, ts_fields =
          [\<lparr>field_name = ''data'', required = True, field_type = None,
            field_shape = Some (OneShape [None])\<rparr>,
           \<lparr>field_name = ''rate'', required = True, field_type = None, field_shape = None\<rparr>,
           \<lparr>field_name = ''starting_time'', required = True, field_type = None,
            field_shape = None\<rparr>]\<rparr>)]
       (Builder ''TimeSeries'' None [(''data'', Builder ''Dataset'' (Some [2, 3]) [])]) = 1"
  using validate_collects_all_errors
    [where env = "\<lparr>read_builder = (\<lambda>io. Inr io),
      get_namespace = (\<lambda>io n. if n = ''core'' then Inr
        [(''TimeSeries'', \<lparr>ts_parent = None, ts_fields =
          [\<lparr>field_name = ''data'', required = True, field_type = None,
            field_shape = Some (OneShape [None])\<rparr>,
           \<lparr>field_name = ''rate'', required = True, field_type = None, field_shape = None\<rparr>,
           \<lparr>field_name = ''starting_time'', required = True, field_type = None,
            field_shape = None\<rparr>]\<rparr>)]
        else Inl (LibraryError ''not a namespace''))\<rparr>"
       and io = "(Builder ''TimeSeries'' None [(''data'', Builder ''Dataset'' (Some [2, 3]) [])])" and b = "(Builder ''TimeSeries'' None [(''data'', Builder ''Dataset'' (Some [2, 3]) [])])" and namespace_arg = None
       and ns = "[(''TimeSeries'', \<lparr>ts_parent = None, ts_fields =
          [\<lparr>field_name = ''data'', required = True, field_type = None,
            field_shape = Some (OneShape [None])\<rparr>,
           \<lparr>field_name = ''rate'', required = True, field_type = None, field_shape = None\<rparr>,
           \<lparr>field_name = ''starting_time'', required = True, field_type = None,
            field_shape = None\<rparr>]\<rparr>)]"]
  by (simp add: CORE_NAMESPACE_def field_errors_def type_errors_def shape_errors_def
      check_shape_def shape_okay_def is_missing_def violates_shape_def)

end
